theory Spec2Isabelle
  imports Main "HOL-Library.Word"
begin

unbundle bit_operations_syntax

section \<open>Common types\<close>

type_synonym byte = "8 word"

text \<open>
  Go errors as values. \<open>Wrapped ctx e\<close> is \<open>fmt.Errorf(ctx + ": %w", e)\<close>;
  \<open>Panic\<close> stands for a Go run-time panic (nil dereference, slice bounds out of range,
  negative shift count).
\<close>

datatype error =
    ErrPacketMustStartWithASyncByte
  | errSkippedPacket
  | ErrNoMoreBytes
  | ErrPayloadTooBig int int
  | ErrSink nat
  | Wrapped string error
  | Panic

section \<open>The bit writer (lightweightBitsWriter)\<close>

text \<open>
  The \<open>io.Writer\<close> behind the bit writer is any object with a \<open>Write\<close> method.
  It is modelled by what the writer can observe of it and what an observer can see of the
  writer: \<open>received\<close> holds every byte handed to \<open>Write\<close> so far, in order, and
  \<open>outcomes\<close> holds the results that the next calls of \<open>Write\<close> will return
  (when it is exhausted the sink accepts everything, as a \<open>bytes.Buffer\<close> does).
\<close>

record sink =
  received :: "byte list"
  outcomes :: "error option list"

definition sink_Write :: "sink \<Rightarrow> byte list \<Rightarrow> sink \<times> error option" where
  "sink_Write s p =
     (case outcomes s of
        [] \<Rightarrow> (s\<lparr>received := received s @ p\<rparr>, None)
      | r # rs \<Rightarrow> (s\<lparr>received := received s @ p, outcomes := rs\<rparr>, r))"

record lightweightBitsWriter =
  w :: sink
  cache :: byte
  cacheLen :: byte
  bsCache :: byte
  err :: "error option"



definition flushBsCache :: "lightweightBitsWriter \<Rightarrow> lightweightBitsWriter" where
  "flushBsCache bw =
     (if err bw = None
      then (case sink_Write (w bw) [bsCache bw] of (s', r) \<Rightarrow> bw\<lparr>w := s', err := r\<rparr>)
      else bw)"



lemma cacheLen_flushBsCache [simp]: "cacheLen (flushBsCache bw) = cacheLen bw"
  by (simp add: flushBsCache_def split: prod.splits)










section \<open>The byte reader (astikit.BytesIterator)\<close>

text \<open>
  Modelled from the spec: the reader \<open>astikit.BytesIterator\<close> belongs to an imported
  library and is not part of the sources. Its contract (4.1) is a cursor over a
  caller-owned buffer with \<open>next_byte\<close>, \<open>next_bytes(n)\<close>, \<open>next_bytes_nocopy(n)\<close>,
  \<open>offset\<close>, \<open>len\<close>, \<open>seek(absolute)\<close>, \<open>skip(delta, signed)\<close> and \<open>dump()\<close>; a read
  fails when fewer than the requested bytes remain. \<open>seek\<close> and \<open>skip\<close> move the cursor
  without any check, so the offset is an \<open>int\<close> that may leave the buffer; slicing the
  buffer at a negative offset, or asking for a negative count, is a Go panic.
\<close>

record BytesIterator =
  bs :: "byte list"
  offset :: int

type_synonym 'a rd = "BytesIterator \<Rightarrow> (error + 'a) \<times> BytesIterator"

definition NewBytesIterator :: "byte list \<Rightarrow> BytesIterator" where
  "NewBytesIterator xs = \<lparr>bs = xs, offset = 0\<rparr>"

definition NextBytes :: "int \<Rightarrow> byte list rd" where
  "NextBytes n i =
     (if int (length (bs i)) < offset i + n then (Inl ErrNoMoreBytes, i)
      else if n < 0 \<or> offset i < 0 then (Inl Panic, i)
      else (Inr (take (nat n) (drop (nat (offset i)) (bs i))), i\<lparr>offset := offset i + n\<rparr>))"

definition NextBytesNoCopy :: "int \<Rightarrow> byte list rd" where
  "NextBytesNoCopy n i = NextBytes n i"

definition NextByte :: "byte rd" where
  "NextByte i =
     (if int (length (bs i)) < offset i + 1 then (Inl ErrNoMoreBytes, i)
      else if offset i < 0 then (Inl Panic, i)
      else (Inr (bs i ! nat (offset i)), i\<lparr>offset := offset i + 1\<rparr>))"

definition Seek :: "int \<Rightarrow> unit rd" where
  "Seek n i = (Inr (), i\<lparr>offset := n\<rparr>)"

definition Skip :: "int \<Rightarrow> unit rd" where
  "Skip n i = (Inr (), i\<lparr>offset := offset i + n\<rparr>)"

definition Offset :: "int rd" where
  "Offset i = (Inr (offset i), i)"

definition Len :: "int rd" where
  "Len i = (Inr (int (length (bs i))), i)"

definition Dump :: "byte list rd" where
  "Dump i =
     (if \<not> offset i < int (length (bs i)) then (Inr [], i)
      else if offset i < 0 then (Inl Panic, i)
      else (Inr (drop (nat (offset i)) (bs i)), i\<lparr>offset := int (length (bs i))\<rparr>))"

text \<open>
  Sequencing of fallible steps over a state (the iterator for parsers, the bit writer for
  serializers). A Go function returns at the first error; the state keeps what was done up
  to there. \<open>rwrap ctx m\<close> is the idiom
  \<open>if x, err = m; err != nil { err = fmt.Errorf(ctx + ": %w", err); return }\<close>, and
  \<open>rchain\<close> runs the blocks of a function one after the other on the value under
  construction.
\<close>

definition rreturn :: "'a \<Rightarrow> 's \<Rightarrow> (error + 'a) \<times> 's" where
  "rreturn x i = (Inr x, i)"

definition rfail :: "error \<Rightarrow> 's \<Rightarrow> (error + 'a) \<times> 's" where
  "rfail e i = (Inl e, i)"

definition rbind ::
  "('s \<Rightarrow> (error + 'a) \<times> 's) \<Rightarrow> ('a \<Rightarrow> 's \<Rightarrow> (error + 'b) \<times> 's) \<Rightarrow> 's \<Rightarrow> (error + 'b) \<times> 's" where
  "rbind m f i = (case m i of (Inl e, i') \<Rightarrow> (Inl e, i') | (Inr x, i') \<Rightarrow> f x i')"

fun rbind_res :: "(error + 'a) \<times> 's \<Rightarrow> ('a \<Rightarrow> 's \<Rightarrow> (error + 'b) \<times> 's) \<Rightarrow> (error + 'b) \<times> 's" where
  "rbind_res (Inl e, i) f = (Inl e, i)"
| "rbind_res (Inr x, i) f = f x i"

lemma rbind_code [code]: "rbind m f i = rbind_res (m i) f"
  by (cases "m i"; cases "fst (m i)") (auto simp: rbind_def)

definition rwrap :: "string \<Rightarrow> ('s \<Rightarrow> (error + 'a) \<times> 's) \<Rightarrow> 's \<Rightarrow> (error + 'a) \<times> 's" where
  "rwrap ctx m i = (case m i of (Inl e, i') \<Rightarrow> (Inl (Wrapped ctx e), i') | (Inr x, i') \<Rightarrow> (Inr x, i'))"

fun rchain :: "('a \<Rightarrow> 's \<Rightarrow> (error + 'a) \<times> 's) list \<Rightarrow> 'a \<Rightarrow> 's \<Rightarrow> (error + 'a) \<times> 's" where
  "rchain [] a = rreturn a"
| "rchain (f # fs) a = rbind (f a) (rchain fs)"

definition nextByte :: "byte rd" where
  "nextByte = rwrap ''astits: fetching next byte failed'' NextByte"

definition nextBytes :: "int \<Rightarrow> byte list rd" where
  "nextBytes n = rwrap ''astits: fetching next bytes failed'' (NextBytes n)"

definition nextBytesNoCopy :: "int \<Rightarrow> byte list rd" where
  "nextBytesNoCopy n = rwrap ''astits: fetching next bytes failed'' (NextBytesNoCopy n)"

section \<open>Packets: data model\<close>

definition MpegTsPacketSize :: int where "MpegTsPacketSize = 188"

text \<open>
  Modelled from the spec: the constants \<open>syncByte\<close> and \<open>ptsOrDTSByteLength\<close> are declared
  in files that are not part of the sources. The spec gives the sync byte as 0x47 and the
  seamless-splice field as 40 bits (4-bit splice type + 36-bit DTS), that is 5 bytes.
\<close>

definition syncByte :: byte where "syncByte = 0x47"

text \<open>
  Modelled from the spec: the struct \<open>ClockReference\<close> and its constructor
  \<open>newClockReference\<close> are declared outside the sources; the spec gives a pair
  (base, extension). Both are \<open>int64\<close> in the callers; a 64-bit word keeps the
  conversions \<open>int64(uint64)\<close> and \<open>uint64(int64)\<close> of the callers as the identity on
  bits.
\<close>

record ClockReference =
  Base :: "64 word"
  Extension :: "64 word"

definition newClockReference :: "64 word \<Rightarrow> 64 word \<Rightarrow> ClockReference" where
  "newClockReference b e = \<lparr>Base = b, Extension = e\<rparr>"

record PacketHeader =
  ContinuityCounter :: byte
  HasAdaptationField :: bool
  HasPayload :: bool
  PayloadUnitStartIndicator :: bool
  PID :: "16 word"
  TransportErrorIndicator :: bool
  TransportPriority :: bool
  TransportScramblingControl :: byte

text \<open>
  The field \<open>Length\<close> occurs in several structs; it is \<open>AFE_Length\<close> in the adaptation
  extension field and \<open>AF_Length\<close> in the adaptation field. Pointers that may be nil are
  options.
\<close>

record PacketAdaptationExtensionField =
  DTSNextAccessUnit :: "ClockReference option"
  HasLegalTimeWindow :: bool
  HasPiecewiseRate :: bool
  HasSeamlessSplice :: bool
  LegalTimeWindowIsValid :: bool
  LegalTimeWindowOffset :: "16 word"
  AFE_Length :: int
  PiecewiseRate :: "32 word"
  SpliceType :: byte

record PacketAdaptationField =
  AdaptationExtensionField :: "PacketAdaptationExtensionField option"
  OPCR :: "ClockReference option"
  PCR :: "ClockReference option"
  TransportPrivateData :: "byte list"
  TransportPrivateDataLength :: int
  AF_Length :: int
  StuffingLength :: int
  SpliceCountdown :: int
  IsOneByteStuffing :: bool
  RandomAccessIndicator :: bool
  DiscontinuityIndicator :: bool
  ElementaryStreamPriorityIndicator :: bool
  HasAdaptationExtensionField :: bool
  HasOPCR :: bool
  HasPCR :: bool
  HasTransportPrivateData :: bool
  HasSplicingCountdown :: bool

record Packet =
  AdaptationField :: "PacketAdaptationField option"
  Header :: PacketHeader
  Payload :: "byte list"

text \<open>The Go zero values \<open>&PacketAdaptationExtensionField{}\<close> and \<open>&PacketAdaptationField{}\<close>.\<close>

definition zeroPacketAdaptationExtensionField :: PacketAdaptationExtensionField where
  "zeroPacketAdaptationExtensionField =
     \<lparr>DTSNextAccessUnit = None, HasLegalTimeWindow = False, HasPiecewiseRate = False,
      HasSeamlessSplice = False, LegalTimeWindowIsValid = False, LegalTimeWindowOffset = 0,
      AFE_Length = 0, PiecewiseRate = 0, SpliceType = 0\<rparr>"

definition zeroPacketAdaptationField :: PacketAdaptationField where
  "zeroPacketAdaptationField =
     \<lparr>AdaptationExtensionField = None, OPCR = None, PCR = None, TransportPrivateData = [],
      TransportPrivateDataLength = 0, AF_Length = 0, StuffingLength = 0, SpliceCountdown = 0,
      IsOneByteStuffing = False, RandomAccessIndicator = False, DiscontinuityIndicator = False,
      ElementaryStreamPriorityIndicator = False, HasAdaptationExtensionField = False,
      HasOPCR = False, HasPCR = False, HasTransportPrivateData = False,
      HasSplicingCountdown = False\<rparr>"

section \<open>Packets: parsing\<close>

definition parsePacketHeader :: "PacketHeader rd" where
  "parsePacketHeader =
     rbind (nextBytesNoCopy 3) (\<lambda>xs.
       rreturn
         \<lparr>ContinuityCounter = (xs ! 2) AND 0xf,
          HasAdaptationField = ((xs ! 2) AND 0x20 > 0),
          HasPayload = ((xs ! 2) AND 0x10 > 0),
          PayloadUnitStartIndicator = ((xs ! 0) AND 0x40 > 0),
          PID = push_bit 8 (ucast ((xs ! 0) AND 0x1f)) OR ucast (xs ! 1),
          TransportErrorIndicator = ((xs ! 0) AND 0x80 > 0),
          TransportPriority = ((xs ! 0) AND 0x20 > 0),
          TransportScramblingControl = drop_bit 6 (xs ! 2) AND 0x3\<rparr>)"

definition parsePCR :: "ClockReference rd" where
  "parsePCR =
     rbind (nextBytesNoCopy 6) (\<lambda>xs.
       let pcr = push_bit 40 (ucast (xs ! 0)) OR push_bit 32 (ucast (xs ! 1)) OR
                 push_bit 24 (ucast (xs ! 2)) OR push_bit 16 (ucast (xs ! 3)) OR
                 push_bit 8 (ucast (xs ! 4)) OR ucast (xs ! 5) :: 64 word
       in rreturn (newClockReference (drop_bit 15 pcr) (pcr AND 0x1ff)))"

text \<open>
  Modelled from the spec: \<open>parsePTSOrDTS\<close> is defined outside the sources. The field is
  5 bytes in the PTS/DTS marker-bit layout, which the struct comment of
  \<open>DTSNextAccessUnit\<close> spells out: 4 bits of splice type, then 3 bits, a marker bit, 15 bits,
  a marker bit, 15 bits and a marker bit, for 33 data bits; the extension is 0.
\<close>

definition parsePTSOrDTS :: "ClockReference rd" where
  "parsePTSOrDTS =
     rbind (nextBytesNoCopy 5) (\<lambda>xs.
       rreturn (newClockReference
         (push_bit 30 (drop_bit 1 (ucast (xs ! 0)) AND 0x7) OR push_bit 22 (ucast (xs ! 1)) OR
          push_bit 15 (drop_bit 1 (ucast (xs ! 2)) AND 0x7f) OR push_bit 7 (ucast (xs ! 3)) OR
          (drop_bit 1 (ucast (xs ! 4)) AND 0x7f)) 0))"

text \<open>
  The block \<open>// Adaptation extension\<close> of \<open>parsePacketAdaptationField\<close>, from the length
  byte of the extension on; its flag-gated reads, in the order of the source, are the list
  \<open>parsePacketAdaptationField_extension_blocks\<close>.
\<close>

definition parsePacketAdaptationField_extension_blocks ::
  "(PacketAdaptationExtensionField \<Rightarrow> PacketAdaptationExtensionField rd) list" where
  "parsePacketAdaptationField_extension_blocks =
     [\<lambda>afe. if HasLegalTimeWindow afe then
              rbind (nextBytesNoCopy 2) (\<lambda>xs.
                rreturn (afe\<lparr>LegalTimeWindowIsValid := ((xs ! 0) AND 0x80 > 0),
                             LegalTimeWindowOffset :=
                               push_bit 8 (ucast ((xs ! 0) AND 0x7f)) OR ucast (xs ! 1)\<rparr>))
            else rreturn afe,
      \<lambda>afe. if HasPiecewiseRate afe then
              rbind (nextBytesNoCopy 3) (\<lambda>xs.
                rreturn (afe\<lparr>PiecewiseRate :=
                               push_bit 16 (ucast ((xs ! 0) AND 0x3f)) OR
                               push_bit 8 (ucast (xs ! 1)) OR ucast (xs ! 2)\<rparr>))
            else rreturn afe,
      \<lambda>afe. if HasSeamlessSplice afe then
              rbind nextByte (\<lambda>b.
              rbind (Skip (- 1)) (\<lambda>_.
              rbind (rwrap ''astits: parsing DTS failed'' parsePTSOrDTS) (\<lambda>cr.
                rreturn (afe\<lparr>SpliceType := drop_bit 4 (b AND 0xf0),
                             DTSNextAccessUnit := Some cr\<rparr>))))
            else rreturn afe]"

definition parsePacketAdaptationField_extension :: "PacketAdaptationExtensionField rd" where
  "parsePacketAdaptationField_extension =
     rbind nextByte (\<lambda>b.
       let afe = zeroPacketAdaptationExtensionField\<lparr>AFE_Length := uint b\<rparr> in
       if AFE_Length afe > 0 then
         rbind nextByte (\<lambda>b.
           rchain parsePacketAdaptationField_extension_blocks
             (afe\<lparr>HasLegalTimeWindow := (b AND 0x80 > 0),
                  HasPiecewiseRate := (b AND 0x40 > 0),
                  HasSeamlessSplice := (b AND 0x20 > 0)\<rparr>))
       else rreturn afe)"

text \<open>
  The body of \<open>if a.Length > 0\<close> in \<open>parsePacketAdaptationField\<close>: the flag byte, then
  the flag-gated reads \<open>parsePacketAdaptationField_blocks\<close> in the order of the source.
\<close>

definition parsePacketAdaptationField_blocks ::
  "(PacketAdaptationField \<Rightarrow> PacketAdaptationField rd) list" where
  "parsePacketAdaptationField_blocks =
     [\<lambda>a. if HasPCR a then
              rbind (rwrap ''astits: parsing PCR failed'' parsePCR) (\<lambda>cr.
                rreturn (a\<lparr>PCR := Some cr\<rparr>))
            else rreturn a,
      \<lambda>a. if HasOPCR a then
              rbind (rwrap ''astits: parsing PCR failed'' parsePCR) (\<lambda>cr.
                rreturn (a\<lparr>OPCR := Some cr\<rparr>))
            else rreturn a,
      \<lambda>a. if HasSplicingCountdown a then
              rbind nextByte (\<lambda>b. rreturn (a\<lparr>SpliceCountdown := uint b\<rparr>))
            else rreturn a,
      \<lambda>a. if HasTransportPrivateData a then
              rbind nextByte (\<lambda>b.
                let a = a\<lparr>TransportPrivateDataLength := uint b\<rparr> in
                if TransportPrivateDataLength a > 0 then
                  rbind (nextBytes (TransportPrivateDataLength a)) (\<lambda>xs.
                    rreturn (a\<lparr>TransportPrivateData := xs\<rparr>))
                else rreturn a)
            else rreturn a,
      \<lambda>a. if HasAdaptationExtensionField a then
              rbind parsePacketAdaptationField_extension (\<lambda>afe.
                rreturn (a\<lparr>AdaptationExtensionField := Some afe\<rparr>))
            else rreturn a]"

definition parsePacketAdaptationField_fields :: "PacketAdaptationField \<Rightarrow> PacketAdaptationField rd" where
  "parsePacketAdaptationField_fields a0 =
     rbind nextByte (\<lambda>b.
       rchain parsePacketAdaptationField_blocks
         (a0\<lparr>DiscontinuityIndicator := (b AND 0x80 > 0),
             RandomAccessIndicator := (b AND 0x40 > 0),
             ElementaryStreamPriorityIndicator := (b AND 0x20 > 0),
             HasPCR := (b AND 0x10 > 0),
             HasOPCR := (b AND 0x08 > 0),
             HasSplicingCountdown := (b AND 0x04 > 0),
             HasTransportPrivateData := (b AND 0x02 > 0),
             HasAdaptationExtensionField := (b AND 0x01 > 0)\<rparr>))"

definition parsePacketAdaptationField :: "PacketAdaptationField rd" where
  "parsePacketAdaptationField =
     rbind nextByte (\<lambda>b.
     rbind Offset (\<lambda>afStartOffset.
     rbind (let a = zeroPacketAdaptationField\<lparr>AF_Length := uint b\<rparr> in
            if AF_Length a > 0 then parsePacketAdaptationField_fields a else rreturn a) (\<lambda>a.
     rbind Offset (\<lambda>off.
       rreturn (a\<lparr>StuffingLength := AF_Length a - (off - afStartOffset)\<rparr>)))))"

text \<open>
  \<open>payloadOffset\<close> dereferences the adaptation field when the header announces one: a nil
  pointer there is a panic.
\<close>

definition payloadOffset :: "int \<Rightarrow> PacketHeader \<Rightarrow> PacketAdaptationField option \<Rightarrow> error + int" where
  "payloadOffset offsetStart h a =
     (if HasAdaptationField h then
        (case a of None \<Rightarrow> Inl Panic | Some af \<Rightarrow> Inr (offsetStart + 3 + (1 + AF_Length af)))
      else Inr (offsetStart + 3))"

text \<open>
  \<open>parsePacket\<close>. The skipper is a nil-able function value, here an optional predicate. The
  model returns the packet or the error (Go returns both a pointer and an error; callers
  read the pointer only when the error is nil).
\<close>

definition parsePacket :: "(Packet \<Rightarrow> bool) option \<Rightarrow> Packet rd" where
  "parsePacket s =
     rbind (rwrap ''astits: getting next byte failed'' NextByte) (\<lambda>b.
       if b \<noteq> syncByte then rfail ErrPacketMustStartWithASyncByte
       else
         rbind Len (\<lambda>l.
         rbind (Seek (l - MpegTsPacketSize + 1)) (\<lambda>_.
         rbind Offset (\<lambda>offsetStart.
         rbind (rwrap ''astits: parsing packet header failed'' parsePacketHeader) (\<lambda>h.
         rbind (if HasAdaptationField h then
                  rbind (rwrap ''astits: parsing packet adaptation field failed''
                           parsePacketAdaptationField) (\<lambda>a. rreturn (Some a))
                else rreturn None) (\<lambda>a.
           let p = \<lparr>AdaptationField = a, Header = h, Payload = []\<rparr> in
           if (case s of None \<Rightarrow> False | Some f \<Rightarrow> f p) then rfail errSkippedPacket
           else if HasPayload h then
             (case payloadOffset offsetStart h a of
                Inl e \<Rightarrow> rfail e
              | Inr po \<Rightarrow>
                  rbind (Seek po) (\<lambda>_.
                  rbind Dump (\<lambda>pl. rreturn (p\<lparr>Payload := pl\<rparr>))))
           else rreturn p))))))"

section \<open>Packets: serializing\<close>














definition newStuffingAdaptationField :: "int \<Rightarrow> PacketAdaptationField" where
  "newStuffingAdaptationField bytesToStuff =
     (if bytesToStuff = 1 then zeroPacketAdaptationField\<lparr>IsOneByteStuffing := True\<rparr>
      else zeroPacketAdaptationField\<lparr>StuffingLength := bytesToStuff - 2\<rparr>)"





section \<open>Byte accounting\<close>

text \<open>
  What the sink has seen of a writer: the number of bytes handed to it, and the number of
  bits written so far (those bytes and the bits waiting in the cache).
\<close>

definition bytes_out :: "lightweightBitsWriter \<Rightarrow> nat" where
  "bytes_out bw = length (received (w bw))"





section \<open>Writer latching\<close>










section \<open>Packet parsing: sync byte, splice countdown, stuffing length\<close>

text \<open>
  Claim C8. When the byte under the cursor is not the sync byte 0x47, \<open>parsePacket\<close> fails
  with \<open>ErrPacketMustStartWithASyncByte\<close> and leaves the iterator one byte further: nothing
  else is read and the cursor is not repositioned.
\<close>

theorem parsePacket_sync_byte_missing:
  assumes "0 \<le> offset i" and "offset i < int (length (bs i))"
    and "bs i ! nat (offset i) \<noteq> 0x47"
  shows "parsePacket s i = (Inl ErrPacketMustStartWithASyncByte, i\<lparr>offset := offset i + 1\<rparr>)"
  using assms
  by (simp add: parsePacket_def rbind_def rwrap_def NextByte_def rfail_def syncByte_def)

theorem parsePacket_sync_byte_missing_witness:
  "parsePacket None (NewBytesIterator [0x46, 0x47, 0x40]) =
     (Inl ErrPacketMustStartWithASyncByte, \<lparr>bs = [0x46, 0x47, 0x40], offset = 1\<rparr>)"
  using parsePacket_sync_byte_missing [of "NewBytesIterator [0x46, 0x47, 0x40]" None]
  by (simp add: NewBytesIterator_def)

text \<open>
  Claim C6. The splice countdown is read with \<open>int(b)\<close> from an unsigned byte: an adaptation
  field of length 2 with only the splicing-countdown flag set and the countdown byte 0xFF
  parses to \<open>SpliceCountdown = 255\<close>, not to -1.
\<close>

theorem splice_countdown_parsed_unsigned:
  "parsePacketAdaptationField (NewBytesIterator [0x02, 0x04, 0xFF]) =
     (Inr (zeroPacketAdaptationField\<lparr>AF_Length := 2, HasSplicingCountdown := True,
                                      SpliceCountdown := 255\<rparr>),
      \<lparr>bs = [0x02, 0x04, 0xFF], offset = 3\<rparr>)"
  by code_simp






section \<open>Bits and bytes that reach the sink\<close>




lemma bytes_out_upd [simp]:
  "bytes_out (bw\<lparr>cache := x\<rparr>) = bytes_out bw"
  "bytes_out (bw\<lparr>cacheLen := y\<rparr>) = bytes_out bw"
  "bytes_out (bw\<lparr>bsCache := z\<rparr>) = bytes_out bw"
  by (simp_all add: bytes_out_def)

lemma flush_cache [simp]: "cache (flushBsCache bw) = cache bw"
  by (simp add: flushBsCache_def split: prod.splits)









lemma flush_err_mono: "err (flushBsCache bw) = None \<Longrightarrow> err bw = None"
  by (auto simp: flushBsCache_def split: if_splits)








































end
